theory Spec2Isabelle
  imports Main "HOL-Library.AList" "HOL-Library.Sublist" "HOL-Library.Word"
begin

section \<open>JavaScript values, objects and the store\<close>

text \<open>
  The values that flow through \<^verbatim>\<open>src/lib/api.js\<close>: the primitives and references to
  objects held in a store. Numbers are the integer-valued ones. Objects are plain data
  objects (their properties hold values of this type, so no property is a function).
\<close>

datatype jsval =
    JUndefined
  | JNull
  | JBool bool
  | JNum int
  | JStr string
  | JRef nat

text \<open>
  An object is the list of its own enumerable properties in insertion order; a property is
  read with \<open>map_of\<close>. The store is the list of the objects allocated so far, an address is
  an index into it, and an allocation appends.
\<close>

type_synonym jsobj = "(string \<times> jsval) list"
type_synonym heap = "jsobj list"

text \<open>The two kinds of exception the library meets: its own \<^verbatim>\<open>ApiError\<close> with a message,
  and the engine's \<^verbatim>\<open>TypeError\<close>.\<close>

datatype error = ApiError string | TypeError

definition deref :: "heap \<Rightarrow> nat \<Rightarrow> jsobj" where
  "deref h a = (if a < length h then h ! a else [])"

definition alloc :: "heap \<Rightarrow> jsobj \<Rightarrow> heap \<times> jsval" where
  "alloc h obj = (h @ [obj], JRef (length h))"

text \<open>\<^verbatim>\<open>typeof v === 'string'\<close>.\<close>

fun is_string :: "jsval \<Rightarrow> bool" where
  "is_string (JStr s) = True"
| "is_string _ = False"

text \<open>JavaScript's truthiness, as \<^verbatim>\<open>||\<close> and \<^verbatim>\<open>if\<close> test it.\<close>

fun truthy :: "jsval \<Rightarrow> bool" where
  "truthy JUndefined = False"
| "truthy JNull = False"
| "truthy (JBool b) = b"
| "truthy (JNum n) = (n \<noteq> 0)"
| "truthy (JStr s) = (s \<noteq> [])"
| "truthy (JRef a) = True"

text \<open>
  The property read \<^verbatim>\<open>v.k\<close> for the names the library reads (\<^verbatim>\<open>options\<close>,
  \<^verbatim>\<open>headers\<close>, \<^verbatim>\<open>query\<close>, \<^verbatim>\<open>API_ROOT\<close>, \<^verbatim>\<open>apiUrl\<close>): a \<^verbatim>\<open>TypeError\<close> on
  \<^verbatim>\<open>null\<close> and \<^verbatim>\<open>undefined\<close>, \<^verbatim>\<open>undefined\<close> on the other primitives and on an
  object without the property.
\<close>

fun get_prop :: "heap \<Rightarrow> jsval \<Rightarrow> string \<Rightarrow> error + jsval" where
  "get_prop h JUndefined k = Inl TypeError"
| "get_prop h JNull k = Inl TypeError"
| "get_prop h (JRef a) k =
     Inr (case map_of (deref h a) k of None \<Rightarrow> JUndefined | Some v \<Rightarrow> v)"
| "get_prop h v k = Inr JUndefined"

subsection \<open>Decimal rendering\<close>

definition digit_char :: "nat \<Rightarrow> char" where
  "digit_char d = char_of (48 + d)"

fun show_nat :: "nat \<Rightarrow> string" where
  "show_nat n = (if n < 10 then [digit_char n] else show_nat (n div 10) @ [digit_char (n mod 10)])"

declare show_nat.simps [simp del]

definition show_int :: "int \<Rightarrow> string" where
  "show_int i = (if i < 0 then CHR ''-'' # show_nat (nat (- i)) else show_nat (nat i))"

text \<open>
  The string conversion a template literal applies to a value: integers are written in
  decimal (as JavaScript writes every integer of fewer than 22 digits), an object as
  \<^verbatim>\<open>[object Object]\<close> (no property is a function, so none overrides \<^verbatim>\<open>toString\<close>).
\<close>

fun to_string :: "jsval \<Rightarrow> string" where
  "to_string JUndefined = ''undefined''"
| "to_string JNull = ''null''"
| "to_string (JBool b) = (if b then ''true'' else ''false'')"
| "to_string (JNum n) = show_int n"
| "to_string (JStr s) = s"
| "to_string (JRef a) = ''[object Object]''"

subsection \<open>Regular expressions of the source\<close>

text \<open>An unanchored regular expression of literal characters matches a string exactly when
  the literal occurs somewhere in it.\<close>

fun contains :: "string \<Rightarrow> string \<Rightarrow> bool" where
  "contains pat [] = (pat = [])"
| "contains pat (c # cs) = (prefix pat (c # cs) \<or> contains pat cs)"

section \<open>The content-type classifier\<close>

text \<open>
  \<^verbatim>\<open>transformerFromContentType(contentType)\<close>: \<^verbatim>\<open>raw\<close> for a non-string, then the
  regular expressions \<^verbatim>\<open>/json/\<close> and \<^verbatim>\<open>/text\//\<close> in this order, then \<^verbatim>\<open>raw\<close>.
  The result is the name of the response method to call.
\<close>

definition transformerFromContentType :: "jsval \<Rightarrow> string" where
  "transformerFromContentType contentType =
     (case contentType of
        JStr s \<Rightarrow>
          if contains ''json'' s then ''json''
          else if contains ''text/'' s then ''text''
          else ''raw''
      | _ \<Rightarrow> ''raw'')"

section \<open>Url resolution\<close>

text \<open>
  \<^verbatim>\<open>buildFullUrl(url)\<close> for a string \<^verbatim>\<open>url\<close>. The test \<^verbatim>\<open>/(http:\/\/|www)/.test(url)\<close>
  is unanchored. \<^verbatim>\<open>Url.resolve\<close> belongs to Node's \<^verbatim>\<open>url\<close> module and is a parameter
  here; it raises a \<^verbatim>\<open>TypeError\<close> when the root is not a string.
\<close>

definition looks_absolute :: "string \<Rightarrow> bool" where
  "looks_absolute url = (contains ''http://'' url \<or> contains ''www'' url)"

definition buildFullUrl ::
  "(string \<Rightarrow> string \<Rightarrow> string) \<Rightarrow> heap \<Rightarrow> jsval \<Rightarrow> string \<Rightarrow> error + string" where
  "buildFullUrl resolve h this url =
     (if looks_absolute url then Inr url
      else (case get_prop h this ''API_ROOT'' of
              Inl e \<Rightarrow> Inl e
            | Inr (JStr root) \<Rightarrow> Inr (resolve root url)
            | Inr _ \<Rightarrow> Inl TypeError))"

section \<open>The response pipeline\<close>

text \<open>
  A promise is described by its fate: it fulfils with a value, rejects with a reason, or
  never settles. The promises of the transport and of the response reject with a reason
  the library does not inspect.
\<close>

datatype ('a, 'e) promise = Fulfilled 'a | Rejected 'e | Unsettled

text \<open>
  What a decode method of a response returns: a promise, or an immediate value. The
  immediate values are those of \<^typ>\<open>jsval\<close>, none of which has a method \<^verbatim>\<open>then\<close>.
\<close>

datatype decoded = Immediate jsval | Thenable "(jsval, jsval) promise"

text \<open>A member of the response read by name: either not a function, or a method, given by
  what it returns when it is called on the response.\<close>

datatype member = NotFunction | Method decoded

text \<open>
  The response of the transport, as far as the library reads it: \<^verbatim>\<open>status\<close> (an
  unsigned short in the Fetch interface), \<^verbatim>\<open>statusText\<close>, \<^verbatim>\<open>ok\<close>, the value of
  \<^verbatim>\<open>headers.get('Content-Type')\<close> and the members \<^verbatim>\<open>json\<close>, \<^verbatim>\<open>text\<close> and
  \<^verbatim>\<open>raw\<close>.
\<close>

record response =
  status :: "16 word"
  statusText :: string
  ok :: bool
  content_type :: jsval
  json_member :: member
  text_member :: member
  raw_member :: member

text \<open>\<^verbatim>\<open>response[transformerName]\<close>, for the names the classifier returns.\<close>

definition response_member :: "response \<Rightarrow> string \<Rightarrow> member" where
  "response_member r name =
     (if name = ''json'' then json_member r
      else if name = ''text'' then text_member r
      else if name = ''raw'' then raw_member r
      else NotFunction)"

text \<open>\<^verbatim>\<open>transformer(response)\<close>: the bound method, or the \<^verbatim>\<open>ApiError\<close> it throws.\<close>

definition transformer :: "response \<Rightarrow> error + (unit \<Rightarrow> decoded)" where
  "transformer r =
     (let transformerName = transformerFromContentType (content_type r) in
      case response_member r transformerName of
        NotFunction \<Rightarrow>
          Inl (ApiError (''Response has no transformer with name '' @ transformerName))
      | Method d \<Rightarrow> Inr (\<lambda>_. d))"

text \<open>The object \<^verbatim>\<open>{ response, data }\<close> of a success, and the \<^verbatim>\<open>ApiError\<close> of a
  response without ok-status, which carries the same two fields and its message.\<close>

record result =
  response :: response
  data :: jsval

record api_error = result +
  message :: string

text \<open>Why a promise of the library rejects: with the ok-status error, with an exception
  thrown inside a continuation, or with the reason of a promise it waited for.\<close>

datatype failure = OkStatus api_error | Raised error | External jsval

text \<open>
  \<^verbatim>\<open>p.then(cb)\<close> for a continuation that returns a promise or throws: the promise
  returned takes the fate of the continuation's promise, rejects with what the
  continuation throws, and passes a rejection of \<^verbatim>\<open>p\<close> on.
\<close>

fun promise_then ::
  "('a, jsval) promise \<Rightarrow> ('a \<Rightarrow> error + ('b, failure) promise) \<Rightarrow> ('b, failure) promise" where
  "promise_then (Fulfilled v) cb = (case cb v of Inl e \<Rightarrow> Rejected (Raised e) | Inr p \<Rightarrow> p)"
| "promise_then (Rejected x) cb = Rejected (External x)"
| "promise_then Unsettled cb = Unsettled"

text \<open>The message of the error for a response without ok-status, a template literal over
  \<^verbatim>\<open>response.status\<close> and \<^verbatim>\<open>response.statusText\<close>.\<close>

definition ok_status_message :: "response \<Rightarrow> string" where
  "ok_status_message r =
     ''Response has no ok-status ('' @ show_nat (unat (status r)) @ '' - '' @ statusText r @ '')''"

text \<open>
  \<^verbatim>\<open>transform(response)\<close>. Reading \<^verbatim>\<open>data.then\<close> throws a \<^verbatim>\<open>TypeError\<close> when
  \<^verbatim>\<open>data\<close> is \<^verbatim>\<open>undefined\<close> or \<^verbatim>\<open>null\<close>; the test
  \<^verbatim>\<open>typeof data.then === 'function'\<close> holds for a promise and fails for the other
  values.
\<close>

definition transform :: "response \<Rightarrow> error + (result, failure) promise" where
  "transform r =
     (case transformer r of
        Inl e \<Rightarrow> Inl e
      | Inr f \<Rightarrow>
          (let dat = f () in
           if \<not> ok r then
             (case dat of
                Immediate JUndefined \<Rightarrow> Inl TypeError
              | Immediate JNull \<Rightarrow> Inl TypeError
              | Thenable p \<Rightarrow>
                  Inr (promise_then p (\<lambda>d. Inr (Rejected (OkStatus
                    \<lparr>response = r, data = d, message = ok_status_message r\<rparr>))))
              | Immediate v \<Rightarrow>
                  Inr (Rejected (OkStatus
                    \<lparr>response = r, data = v, message = ok_status_message r\<rparr>)))
           else
             (case dat of
                Immediate JUndefined \<Rightarrow> Inl TypeError
              | Immediate JNull \<Rightarrow> Inl TypeError
              | Thenable p \<Rightarrow>
                  Inr (promise_then p (\<lambda>d. Inr (Fulfilled \<lparr>response = r, data = d\<rparr>)))
              | Immediate v \<Rightarrow> Inr (Fulfilled \<lparr>response = r, data = v\<rparr>))))"

section \<open>Options\<close>

text \<open>
  The own enumerable properties a spread \<^verbatim>\<open>{...v}\<close> copies: those of an object (each
  key once, with the value the object holds for it), the characters of a string under
  their indices, none for the other values.
\<close>

fun own_props :: "heap \<Rightarrow> jsval \<Rightarrow> jsobj" where
  "own_props h (JRef a) = AList.clearjunk (deref h a)"
| "own_props h (JStr s) = zip (map show_nat [0..<length s]) (map (\<lambda>c. JStr [c]) s)"
| "own_props h v = []"

text \<open>The own properties of \<^verbatim>\<open>v || {}\<close>.\<close>

definition own_props_or_empty :: "heap \<Rightarrow> jsval \<Rightarrow> jsobj" where
  "own_props_or_empty h v = (if truthy v then own_props h v else [])"

text \<open>Copying properties into an object under construction: a key already there keeps its
  place and takes the new value, a new key goes to the end.\<close>

definition spread :: "jsobj \<Rightarrow> jsobj \<Rightarrow> jsobj" where
  "spread target src = fold (\<lambda>(k, v). AList.update k v) src target"

text \<open>
  \<^verbatim>\<open>mergeOptions(options)\<close> allocates three objects: the merged headers, the merged
  query and the merged options.
\<close>

definition mergeOptions :: "heap \<Rightarrow> jsval \<Rightarrow> jsval \<Rightarrow> error + heap \<times> jsval" where
  "mergeOptions h this options =
     (case get_prop h this ''options'' of Inl e \<Rightarrow> Inl e | Inr this_options \<Rightarrow>
      case get_prop h this_options ''headers'' of Inl e \<Rightarrow> Inl e | Inr this_headers \<Rightarrow>
      case get_prop h options ''headers'' of Inl e \<Rightarrow> Inl e | Inr headers \<Rightarrow>
      let (h1, mergedHeaders) =
            alloc h (spread (spread [] (own_props_or_empty h this_headers))
                            (own_props_or_empty h headers)) in
      case get_prop h1 this_options ''query'' of Inl e \<Rightarrow> Inl e | Inr this_query \<Rightarrow>
      case get_prop h1 options ''query'' of Inl e \<Rightarrow> Inl e | Inr query \<Rightarrow>
      let (h2, mergedQuery) =
            alloc h1 (spread (spread [] (own_props_or_empty h1 this_query))
                             (own_props_or_empty h1 query)) in
      Inr (alloc h2
        (AList.update ''query'' mergedQuery
          (AList.update ''headers'' mergedHeaders
            (spread (spread [] (own_props h2 this_options)) (own_props h2 options))))))"

section \<open>The client\<close>

text \<open>
  \<^verbatim>\<open>new Api(apiUrl = '', options = {})\<close>: a parameter that is \<^verbatim>\<open>undefined\<close> takes its
  default. The new object has the properties \<^verbatim>\<open>API_ROOT\<close> and \<^verbatim>\<open>options\<close>.
\<close>

definition Api_new :: "heap \<Rightarrow> jsval \<Rightarrow> jsval \<Rightarrow> error + heap \<times> jsval" where
  "Api_new h apiUrl options =
     (let apiUrl' = (if apiUrl = JUndefined then JStr [] else apiUrl);
          (h1, options') = (if options = JUndefined then alloc h [] else (h, options)) in
      if \<not> is_string apiUrl' then Inl (ApiError ''Provide a valid api url.'')
      else Inr (alloc h1 [(''API_ROOT'', apiUrl'), (''options'', options')]))"

text \<open>\<^verbatim>\<open>auth(token)\<close>. The new client is built from \<^verbatim>\<open>this.apiUrl\<close>.\<close>

definition auth :: "heap \<Rightarrow> jsval \<Rightarrow> jsval \<Rightarrow> error + heap \<times> jsval" where
  "auth h this token =
     (if token = JNull then
        Inl (ApiError ''AuthToken is null. Authorized API calls cannot be send.'')
      else
        let (h1, headers) = alloc h [(''Authorization'', JStr (''Token '' @ to_string token))];
            (h2, options) = alloc h1 [(''headers'', headers), (''mode'', JStr ''cors'')] in
        case mergeOptions h2 this options of Inl e \<Rightarrow> Inl e | Inr (h3, mergedOptions) \<Rightarrow>
        case get_prop h3 this ''apiUrl'' of Inl e \<Rightarrow> Inl e | Inr apiUrl \<Rightarrow>
        Api_new h3 apiUrl mergedOptions)"

section \<open>Fetching\<close>

text \<open>
  \<^verbatim>\<open>fetch(url, options = {})\<close> for a string \<^verbatim>\<open>url\<close>, in two steps. The first is the
  request handed to the transport: the store, the full url and the merged options.
  \<^verbatim>\<open>queryString.stringify\<close> is a parameter.
\<close>

definition fetch_request ::
  "(heap \<Rightarrow> jsval \<Rightarrow> string) \<Rightarrow> (string \<Rightarrow> string \<Rightarrow> string) \<Rightarrow>
   heap \<Rightarrow> jsval \<Rightarrow> string \<Rightarrow> jsval \<Rightarrow> error + heap \<times> string \<times> jsval" where
  "fetch_request stringify resolve h this url options =
     (let (h0, options') = (if options = JUndefined then alloc h [] else (h, options)) in
      case mergeOptions h0 this options' of Inl e \<Rightarrow> Inl e | Inr (h1, mergedOptions) \<Rightarrow>
      case get_prop h1 mergedOptions ''query'' of Inl e \<Rightarrow> Inl e | Inr query \<Rightarrow>
      let url' = (if truthy query then url @ ''?'' @ stringify h1 query else url) in
      case buildFullUrl resolve h1 this url' of Inl e \<Rightarrow> Inl e | Inr fullUrl \<Rightarrow>
      Inr (h1, fullUrl, mergedOptions))"

text \<open>The second step calls the transport, a parameter that gives the fate of its promise,
  and continues with \<^verbatim>\<open>transform\<close>.\<close>

definition fetch ::
  "(heap \<Rightarrow> string \<Rightarrow> jsval \<Rightarrow> (response, jsval) promise) \<Rightarrow>
   (heap \<Rightarrow> jsval \<Rightarrow> string) \<Rightarrow> (string \<Rightarrow> string \<Rightarrow> string) \<Rightarrow>
   heap \<Rightarrow> jsval \<Rightarrow> string \<Rightarrow> jsval \<Rightarrow> error + (result, failure) promise" where
  "fetch transport stringify resolve h this url options =
     (case fetch_request stringify resolve h this url options of
        Inl e \<Rightarrow> Inl e
      | Inr (h1, fullUrl, mergedOptions) \<Rightarrow>
          Inr (promise_then (transport h1 fullUrl mergedOptions) transform))"

section \<open>JSON bodies\<close>

text \<open>
  \<^verbatim>\<open>JSON.stringify\<close> on the primitives: \<^verbatim>\<open>undefined\<close> has no encoding (the result is
  \<^verbatim>\<open>undefined\<close>), \<^verbatim>\<open>null\<close> and the booleans are written as their names, an integer in
  decimal, a string between double quotes with the escapes of JSON. The encoding of an
  object walks the object graph and raises a \<^verbatim>\<open>TypeError\<close> on a cycle; it is a
  parameter, which returns the text or \<open>None\<close> for the exception.
\<close>

definition hex_digit :: "nat \<Rightarrow> char" where
  "hex_digit d = (if d < 10 then char_of (48 + d) else char_of (87 + d))"

definition json_escape :: "char \<Rightarrow> string" where
  "json_escape c =
     (if c = CHR 0x08 then [CHR 0x5C, CHR ''b'']
      else if c = CHR 0x09 then [CHR 0x5C, CHR ''t'']
      else if c = CHR 0x0A then [CHR 0x5C, CHR ''n'']
      else if c = CHR 0x0C then [CHR 0x5C, CHR ''f'']
      else if c = CHR 0x0D then [CHR 0x5C, CHR ''r'']
      else if c = CHR 0x22 then [CHR 0x5C, CHR 0x22]
      else if c = CHR 0x5C then [CHR 0x5C, CHR 0x5C]
      else if of_char c < (32::nat) then
        [CHR 0x5C, CHR ''u'', CHR ''0'', CHR ''0'',
         hex_digit (of_char c div 16), hex_digit (of_char c mod 16)]
      else [c])"

definition quote_json :: "string \<Rightarrow> string" where
  "quote_json s = CHR 0x22 # concat (map json_escape s) @ [CHR 0x22]"

definition JSON_stringify :: "(heap \<Rightarrow> nat \<Rightarrow> string option) \<Rightarrow> heap \<Rightarrow> jsval \<Rightarrow> error + jsval" where
  "JSON_stringify encode_object h v =
     (case v of
        JUndefined \<Rightarrow> Inr JUndefined
      | JNull \<Rightarrow> Inr (JStr ''null'')
      | JBool b \<Rightarrow> Inr (JStr (if b then ''true'' else ''false''))
      | JNum n \<Rightarrow> Inr (JStr (show_int n))
      | JStr s \<Rightarrow> Inr (JStr (quote_json s))
      | JRef a \<Rightarrow> (case encode_object h a of None \<Rightarrow> Inl TypeError | Some s \<Rightarrow> Inr (JStr s)))"

text \<open>
  \<^verbatim>\<open>fetchWithJSON(url, json, options)\<close>. The object literal allocates the headers and
  then the options handed to \<^verbatim>\<open>fetch\<close>; \<open>json_options\<close> is that literal.
\<close>

definition json_options :: "heap \<Rightarrow> jsval \<Rightarrow> jsval \<Rightarrow> heap \<times> jsval" where
  "json_options h options body =
     (let copied = spread [] (own_props h options);
          (h1, headers) =
            alloc h [(''Accept'', JStr ''application/json''),
                     (''Content-Type'', JStr ''application/json'')] in
      alloc h1 (AList.update ''body'' body (AList.update ''headers'' headers copied)))"

definition fetchWithJSON ::
  "(heap \<Rightarrow> string \<Rightarrow> jsval \<Rightarrow> (response, jsval) promise) \<Rightarrow>
   (heap \<Rightarrow> jsval \<Rightarrow> string) \<Rightarrow> (string \<Rightarrow> string \<Rightarrow> string) \<Rightarrow>
   (heap \<Rightarrow> nat \<Rightarrow> string option) \<Rightarrow>
   heap \<Rightarrow> jsval \<Rightarrow> string \<Rightarrow> jsval \<Rightarrow> jsval \<Rightarrow> error + (result, failure) promise" where
  "fetchWithJSON transport stringify resolve encode_object h this url json options =
     (if json = JUndefined then Inl (ApiError ''No JSON object given'')
      else
        case JSON_stringify encode_object h json of
          Inl e \<Rightarrow> Inl e
        | Inr body \<Rightarrow>
            (let (h2, options') = json_options h options body in
             fetch transport stringify resolve h2 this url options'))"

section \<open>Observations used in the statements\<close>

text \<open>A reference is valid in a store when it points to an allocated object; a store is
  closed when every reference held in one of its objects is valid.\<close>

fun valid_ref :: "heap \<Rightarrow> jsval \<Rightarrow> bool" where
  "valid_ref h (JRef a) = (a < length h)"
| "valid_ref h v = True"

definition closed_heap :: "heap \<Rightarrow> bool" where
  "closed_heap h = list_all (\<lambda>obj. list_all (\<lambda>kv. valid_ref h (snd kv)) obj) h"

text \<open>The value of \<^verbatim>\<open>v.k\<close> where the read does not throw.\<close>

definition field :: "heap \<Rightarrow> jsval \<Rightarrow> string \<Rightarrow> jsval" where
  "field h v k = (case get_prop h v k of Inl e \<Rightarrow> JUndefined | Inr w \<Rightarrow> w)"

text \<open>The own properties of a value as a mapping, and the mapping a configuration holds
  under a key such as \<^verbatim>\<open>headers\<close> or \<^verbatim>\<open>query\<close> (empty when the key is absent).\<close>

definition props_of :: "heap \<Rightarrow> jsval \<Rightarrow> string \<rightharpoonup> jsval" where
  "props_of h v = map_of (own_props h v)"

definition config_map :: "heap \<Rightarrow> jsval \<Rightarrow> string \<Rightarrow> string \<rightharpoonup> jsval" where
  "config_map h cfg k = map_of (own_props_or_empty h (field h cfg k))"

text \<open>A client as the constructor leaves it: an allocated object with the root under
  \<^verbatim>\<open>API_ROOT\<close> and the default configuration under \<^verbatim>\<open>options\<close>.\<close>

fun is_client :: "heap \<Rightarrow> jsval \<Rightarrow> string \<Rightarrow> jsval \<Rightarrow> bool" where
  "is_client h (JRef a) root options =
     (a < length h \<and> h ! a = [(''API_ROOT'', JStr root), (''options'', options)])"
| "is_client h v root options = False"

text \<open>Reading a decimal numeral back.\<close>

definition read_nat :: "string \<Rightarrow> nat" where
  "read_nat s = foldl (\<lambda>a c. 10 * a + (of_char c - 48)) 0 s"

subsection \<open>Inputs of the test suite\<close>

text \<open>
  For a root without a path and a path that starts with a slash, \<^verbatim>\<open>Url.resolve\<close> is
  concatenation; \<open>concat_resolve\<close> stands for it where a statement is evaluated.
\<close>

definition concat_resolve :: "string \<Rightarrow> string \<Rightarrow> string" where
  "concat_resolve root url = root @ url"

text \<open>\<^verbatim>\<open>queryString.stringify\<close> gives the empty string for an empty mapping;
  \<open>no_query_string\<close> stands for it where the query is empty.\<close>

definition no_query_string :: "heap \<Rightarrow> jsval \<Rightarrow> string" where
  "no_query_string h query = []"

text \<open>A store that holds the client of the tests, \<^verbatim>\<open>new Api('http://example.com')\<close>, at
  address 0 and its empty options at address 1.\<close>

definition example_heap :: heap where
  "example_heap = [[(''API_ROOT'', JStr ''http://example.com''), (''options'', JRef 1)], []]"

text \<open>A store for the test \<^verbatim>\<open>should merge fetch headers\<close>: the client at address 0, its
  options at 1 with their headers at 2, the call's options at 3 with their headers at 4.\<close>

definition merge_headers_heap :: heap where
  "merge_headers_heap =
     [[(''API_ROOT'', JStr ''http://example.com''), (''options'', JRef 1)],
      [(''headers'', JRef 2)],
      [(''Content-Type'', JStr ''json''), (''Foo'', JStr ''Bar'')],
      [(''headers'', JRef 4)],
      [(''Content-Type'', JStr ''text''), (''Token'', JStr ''123'')]]"

section \<open>Auxiliary facts\<close>

subsection \<open>Matching and numerals\<close>

lemma contains_iff: "contains pat s \<longleftrightarrow> (\<exists>p q. s = p @ pat @ q)"
proof (induction s)
  case Nil
  then show ?case by auto
next
  case (Cons c cs)
  show ?case
  proof
    assume "contains pat (c # cs)"
    then consider "prefix pat (c # cs)" | "contains pat cs" by auto
    then show "\<exists>p q. c # cs = p @ pat @ q"
    proof cases
      case 1
      then obtain q where "c # cs = pat @ q" by (auto simp: prefix_def)
      then have "c # cs = [] @ pat @ q" by simp
      then show ?thesis by blast
    next
      case 2
      with Cons.IH obtain p q where "cs = p @ pat @ q" by blast
      then have "c # cs = (c # p) @ pat @ q" by simp
      then show ?thesis by blast
    qed
  next
    assume "\<exists>p q. c # cs = p @ pat @ q"
    then obtain p q where pq: "c # cs = p @ pat @ q" by blast
    show "contains pat (c # cs)"
    proof (cases p)
      case Nil
      with pq have "prefix pat (c # cs)" by (simp add: prefix_def)
      then show ?thesis by simp
    next
      case (Cons d p')
      with pq have "cs = p' @ pat @ q" by simp
      with Cons.IH have "contains pat cs" by blast
      then show ?thesis by simp
    qed
  qed
qed

lemma read_digit: "d < 10 \<Longrightarrow> of_char (digit_char d) - 48 = (d::nat)"
  by (simp add: digit_char_def)

lemma read_show_nat: "read_nat (show_nat n) = n"
proof (induction n rule: show_nat.induct)
  case (1 n)
  show ?case
  proof (cases "n < 10")
    case True
    then show ?thesis
      by (subst show_nat.simps) (simp add: read_nat_def read_digit)
  next
    case False
    with 1 have "read_nat (show_nat (n div 10)) = n div 10" by simp
    with False show ?thesis
      by (subst show_nat.simps) (simp add: read_nat_def read_digit)
  qed
qed

lemma inj_show_nat: "inj show_nat"
  by (rule inj_on_inverseI [where g = read_nat]) (rule read_show_nat)

lemma show_nat_404: "show_nat 404 = ''404''"
  by code_simp

subsection \<open>Property lists\<close>

lemma map_of_fold_update:
  "map_of (fold (\<lambda>(k, v). AList.update k v) src target) = map_of target ++ map_of (rev src)"
proof (induction src arbitrary: target)
  case Nil
  show ?case by simp
next
  case (Cons p src)
  obtain k v where p: "p = (k, v)" by (cases p)
  have "map_of (fold (\<lambda>(k, v). AList.update k v) (p # src) target)
      = map_of (AList.update k v target) ++ map_of (rev src)"
    using Cons.IH [of "AList.update k v target"] by (simp add: p)
  also have "\<dots> = map_of target ++ map_of (rev (p # src))"
    by (simp add: p update_conv' map_add_def fun_eq_iff split: option.splits)
  finally show ?case .
qed

lemma map_of_rev_distinct:
  "distinct (map fst xs) \<Longrightarrow> map_of (rev xs) = map_of xs"
proof (induction xs)
  case Nil
  show ?case by simp
next
  case (Cons p xs)
  then have "map_of xs (fst p) = None"
    by (simp add: map_of_eq_None_iff)
  with Cons show ?case
    by (auto simp: fun_eq_iff map_add_def split: option.splits)
qed

lemma map_of_spread:
  "distinct (map fst src) \<Longrightarrow> map_of (spread target src) = map_of target ++ map_of src"
  by (simp add: spread_def map_of_fold_update map_of_rev_distinct)

lemma distinct_own_props: "distinct (map fst (own_props h v))"
proof (cases v)
  case (JStr s)
  have "distinct (map show_nat [0..<length s])"
    by (simp add: distinct_map inj_on_subset [OF inj_show_nat])
  then show ?thesis by (simp add: JStr)
qed simp_all

lemma distinct_own_props_or_empty: "distinct (map fst (own_props_or_empty h v))"
  by (simp add: own_props_or_empty_def distinct_own_props)

lemma map_of_spread2:
  "distinct (map fst a) \<Longrightarrow> distinct (map fst b) \<Longrightarrow>
   map_of (spread (spread [] a) b) = map_of a ++ map_of b"
  by (simp add: map_of_spread)

lemma spread_distinct: "distinct (map fst target) \<Longrightarrow> distinct (map fst (spread target src))"
  unfolding spread_def
proof (induction src arbitrary: target)
  case Nil
  then show ?case by simp
next
  case (Cons p src)
  show ?case
    using Cons.IH [of "AList.update (fst p) (snd p) target"] Cons.prems
    by (simp add: distinct_update case_prod_beta)
qed

subsection \<open>Reading the store\<close>

lemma get_prop_field:
  "v \<noteq> JUndefined \<Longrightarrow> v \<noteq> JNull \<Longrightarrow> get_prop h v k = Inr (field h v k)"
  by (cases v) (simp_all add: field_def)

lemma get_prop_error: "get_prop h v k = Inl e \<Longrightarrow> e = TypeError"
  by (cases v) auto

lemma deref_append: "a < length h \<Longrightarrow> deref (h @ xs) a = deref h a"
  by (simp add: deref_def nth_append)

lemma get_prop_append: "valid_ref h v \<Longrightarrow> get_prop (h @ xs) v k = get_prop h v k"
  by (cases v) (simp_all add: deref_append)

lemma field_append: "valid_ref h v \<Longrightarrow> field (h @ xs) v k = field h v k"
  by (simp add: field_def get_prop_append)

lemma own_props_append: "valid_ref h v \<Longrightarrow> own_props (h @ xs) v = own_props h v"
  by (cases v) (simp_all add: deref_append)

lemma own_props_or_empty_append:
  "valid_ref h v \<Longrightarrow> own_props_or_empty (h @ xs) v = own_props_or_empty h v"
  by (simp add: own_props_or_empty_def own_props_append)

lemma valid_ref_append: "valid_ref h v \<Longrightarrow> valid_ref (h @ xs) v"
  by (cases v) simp_all

lemma closed_heap_field:
  assumes "closed_heap h" and "valid_ref h v"
  shows "valid_ref h (field h v k)"
proof (cases v)
  case (JRef a)
  show ?thesis
  proof (cases "map_of (deref h a) k")
    case None
    then show ?thesis by (simp add: JRef field_def)
  next
    case (Some w)
    from assms JRef have a: "a < length h" by simp
    from Some have "(k, w) \<in> set (h ! a)"
      using a by (auto simp: deref_def dest: map_of_SomeD)
    moreover have "h ! a \<in> set h" using a by simp
    ultimately have "valid_ref h w"
      using assms(1) unfolding closed_heap_def list_all_iff by fastforce
    with Some show ?thesis by (simp add: JRef field_def)
  qed
qed (simp_all add: field_def)

lemma closed_heap_append:
  assumes "closed_heap h" and "\<forall>kv \<in> set obj. valid_ref (h @ [obj]) (snd kv)"
  shows "closed_heap (h @ [obj])"
  using assms unfolding closed_heap_def list_all_iff
  by (auto intro: valid_ref_append)

lemma is_client_props:
  assumes "is_client h this root A"
  shows "valid_ref h this" and "get_prop h this ''options'' = Inr A"
    and "get_prop h this ''apiUrl'' = Inr JUndefined"
    and "get_prop h this ''API_ROOT'' = Inr (JStr root)"
  using assms by (cases this; simp add: deref_def)+

lemma is_client_append: "is_client h this root A \<Longrightarrow> is_client (h @ xs) this root A"
  by (cases this) (simp_all add: nth_append)

subsection \<open>The steps of the library\<close>

lemma transformer_Method:
  "response_member r (transformerFromContentType (content_type r)) = Method d \<Longrightarrow>
   transformer r = Inr (\<lambda>_. d)"
  by (simp add: transformer_def)

lemma transformer_NotFunction:
  "response_member r (transformerFromContentType (content_type r)) = NotFunction \<Longrightarrow>
   transformer r =
     Inl (ApiError (''Response has no transformer with name ''
       @ transformerFromContentType (content_type r)))"
  by (simp add: transformer_def)

lemma mergeOptions_result:
  assumes "get_prop h this ''options'' = Inr A"
    and "A \<noteq> JUndefined" "A \<noteq> JNull" "B \<noteq> JUndefined" "B \<noteq> JNull"
  shows "\<exists>H Q M. mergeOptions h this B = Inr (h @ [H, Q, M], JRef (length h + 2))
    \<and> map_of H = config_map h A ''headers'' ++ config_map h B ''headers''
    \<and> map_of Q = config_map (h @ [H]) A ''query'' ++ config_map (h @ [H]) B ''query''
    \<and> map_of M = (props_of (h @ [H, Q]) A ++ props_of (h @ [H, Q]) B)
         (''headers'' \<mapsto> JRef (length h), ''query'' \<mapsto> JRef (length h + 1))
    \<and> distinct (map fst H) \<and> distinct (map fst Q)"
  using assms
  by (simp add: mergeOptions_def get_prop_field alloc_def config_map_def props_of_def
      map_of_spread2 distinct_own_props distinct_own_props_or_empty update_conv' spread_distinct)

lemma mergeOptions_closed:
  assumes "closed_heap h" and "valid_ref h this" and "valid_ref h B"
    and "get_prop h this ''options'' = Inr A"
    and "A \<noteq> JUndefined" "A \<noteq> JNull" "B \<noteq> JUndefined" "B \<noteq> JNull"
  shows "\<exists>H Q M. mergeOptions h this B = Inr (h @ [H, Q, M], JRef (length h + 2))
    \<and> map_of H = config_map h A ''headers'' ++ config_map h B ''headers''
    \<and> map_of Q = config_map h A ''query'' ++ config_map h B ''query''
    \<and> map_of M = (props_of h A ++ props_of h B)
         (''headers'' \<mapsto> JRef (length h), ''query'' \<mapsto> JRef (length h + 1))
    \<and> distinct (map fst H) \<and> distinct (map fst Q)"
proof -
  from mergeOptions_result [OF assms(4-8)] obtain H Q M where
    res: "mergeOptions h this B = Inr (h @ [H, Q, M], JRef (length h + 2))"
    and H: "map_of H = config_map h A ''headers'' ++ config_map h B ''headers''"
    and Q: "map_of Q = config_map (h @ [H]) A ''query'' ++ config_map (h @ [H]) B ''query''"
    and M: "map_of M = (props_of (h @ [H, Q]) A ++ props_of (h @ [H, Q]) B)
         (''headers'' \<mapsto> JRef (length h), ''query'' \<mapsto> JRef (length h + 1))"
    and d: "distinct (map fst H)" "distinct (map fst Q)"
    by blast
  have vA: "valid_ref h A"
    using closed_heap_field [OF assms(1,2), of "''options''"] assms(4) by (simp add: field_def)
  have Q': "map_of Q = config_map h A ''query'' ++ config_map h B ''query''"
    using vA assms(3) closed_heap_field [OF assms(1) vA] closed_heap_field [OF assms(1,3)]
    by (simp add: Q config_map_def field_append own_props_or_empty_append)
  have M': "map_of M = (props_of h A ++ props_of h B)
         (''headers'' \<mapsto> JRef (length h), ''query'' \<mapsto> JRef (length h + 1))"
    using vA assms(3) unfolding M props_of_def by (simp add: own_props_append)
  from res H Q' M' d show ?thesis by blast
qed

lemma mergeOptions_error: "mergeOptions h this B = Inl e \<Longrightarrow> e = TypeError"
  by (auto simp: mergeOptions_def alloc_def Let_def split: sum.splits dest: get_prop_error)

lemma mergeOptions_shape:
  "mergeOptions h this B = Inr (h', m) \<Longrightarrow>
   \<exists>H Q X. h' = h @ [H, Q, AList.update ''query'' (JRef (length h + 1)) X]
     \<and> m = JRef (length h + 2)"
  by (auto simp: mergeOptions_def alloc_def Let_def split: sum.splits)

lemma mergeOptions_query_ref:
  assumes "mergeOptions h this B = Inr (h', m)"
  shows "get_prop h' m ''query'' = Inr (JRef (length h + 1))"
proof -
  from mergeOptions_shape [OF assms] obtain H Q X where
    "h' = h @ [H, Q, AList.update ''query'' (JRef (length h + 1)) X]" "m = JRef (length h + 2)"
    by blast
  then show ?thesis
    by (simp add: deref_def nth_append update_conv')
qed

lemma mergeOptions_override:
  assumes "mergeOptions h this (JRef b) = Inr (h', m)" and "b < length h"
    and "map_of (h ! b) k = Some v" and "k \<noteq> ''headers''" and "k \<noteq> ''query''"
  shows "get_prop h' m k = Inr v"
  using assms
  by (auto simp: mergeOptions_def alloc_def Let_def deref_def nth_append update_conv'
      map_of_spread2 distinct_own_props map_of_clearjunk split: sum.splits)

lemma buildFullUrl_error: "buildFullUrl resolve h this url = Inl e \<Longrightarrow> e = TypeError"
  by (auto simp: buildFullUrl_def split: if_splits sum.splits jsval.splits dest: get_prop_error)

lemma buildFullUrl_root:
  "get_prop h this ''API_ROOT'' = Inr (JStr root) \<Longrightarrow>
   buildFullUrl resolve h this url =
     (if looks_absolute url then Inr url else Inr (resolve root url))"
  by (simp add: buildFullUrl_def)

lemma fetch_request_shape:
  assumes "fetch_request stringify resolve h this url options = Inr (h1, fullUrl, mergedOptions)"
  shows "\<exists>X q. h1 = h @ X \<and> get_prop h1 mergedOptions ''query'' = Inr (JRef q)
    \<and> buildFullUrl resolve h1 this (url @ ''?'' @ stringify h1 (JRef q)) = Inr fullUrl"
proof -
  obtain h0 options' where
    o: "(if options = JUndefined then alloc h [] else (h, options)) = (h0, options')"
    by (cases "if options = JUndefined then alloc h [] else (h, options)")
  then obtain Y where Y: "h0 = h @ Y"
    by (auto simp: alloc_def split: if_splits)
  from assms o obtain h1' m where
    mo: "mergeOptions h0 this options' = Inr (h1', m)"
    by (auto simp: fetch_request_def split: sum.splits)
  note q = mergeOptions_query_ref [OF mo]
  from mergeOptions_shape [OF mo] obtain Z where Z: "h1' = h0 @ Z" by auto
  from assms o mo q have "h1' = h1" "m = mergedOptions"
    by (auto simp: fetch_request_def split: sum.splits)
  with assms o mo q Y Z show ?thesis
    by (auto simp: fetch_request_def split: sum.splits)
qed

lemma fetch_request_error: "fetch_request stringify resolve h this url options = Inl e \<Longrightarrow> e = TypeError"
  by (auto simp: fetch_request_def alloc_def Let_def
      split: if_splits sum.splits prod.splits
      dest: get_prop_error mergeOptions_error buildFullUrl_error)

lemma fetch_error: "fetch transport stringify resolve h this url options = Inl e \<Longrightarrow> e = TypeError"
  by (auto simp: fetch_def split: sum.splits prod.splits dest: fetch_request_error)

lemma fetch_request_example:
  "fetch_request no_query_string concat_resolve example_heap (JRef 0) ''/sample'' JUndefined
     = Inr (example_heap @ [[], [], [], [(''headers'', JRef 3), (''query'', JRef 4)]],
            ''http://example.com/sample?'', JRef 5)"
  by (simp add: fetch_request_def mergeOptions_def alloc_def example_heap_def deref_def
      own_props_or_empty_def spread_def buildFullUrl_def looks_absolute_def
      concat_resolve_def no_query_string_def)

lemma JSON_stringify_error: "JSON_stringify enc h v = Inl e \<Longrightarrow> e = TypeError"
  by (auto simp: JSON_stringify_def split: jsval.splits option.splits)

lemma json_options_body:
  "\<exists>hd X. json_options h options body
      = (h @ [hd, AList.update ''body'' body X], JRef (length h + 1))"
  by (simp add: json_options_def alloc_def) blast

lemma Api_new_result:
  "Api_new h (JStr root) options =
     (if options = JUndefined
      then Inr (h @ [[], [(''API_ROOT'', JStr root), (''options'', JRef (length h))]],
                JRef (length h + 1))
      else Inr (h @ [[(''API_ROOT'', JStr root), (''options'', options)]], JRef (length h)))"
  by (simp add: Api_new_def alloc_def)

lemma Api_new_default_root:
  "options \<noteq> JUndefined \<Longrightarrow>
   Api_new h JUndefined options
     = Inr (h @ [[(''API_ROOT'', JStr []), (''options'', options)]], JRef (length h))"
  by (simp add: Api_new_def alloc_def)

lemma auth_shape:
  assumes cl: "is_client h this root A"
    and A: "A \<noteq> JUndefined" "A \<noteq> JNull" and t: "token \<noteq> JNull"
  shows "\<exists>X. auth h this token =
      Inr (h @ X @ [[(''API_ROOT'', JStr []), (''options'', JRef (length h + 4))]],
           JRef (length h + 5)) \<and> length X = 5"
proof -
  let ?AH = "[(''Authorization'', JStr (''Token '' @ to_string token))]"
  let ?ARG = "[(''headers'', JRef (length h)), (''mode'', JStr ''cors'')]"
  let ?h2 = "h @ [?AH, ?ARG]"
  note p = is_client_props [OF cl]
  have g2: "get_prop ?h2 this ''options'' = Inr A"
    using get_prop_append [OF p(1), of "[?AH, ?ARG]"] p(2) by simp
  from mergeOptions_result [OF g2 A, of "JRef (length h + 1)"] obtain H Q M where
    res: "mergeOptions ?h2 this (JRef (length h + 1))
      = Inr (?h2 @ [H, Q, M], JRef (length ?h2 + 2))"
    by auto
  have u: "get_prop (?h2 @ [H, Q, M]) this ''apiUrl'' = Inr JUndefined"
    using get_prop_append [OF p(1), of "[?AH, ?ARG, H, Q, M]"] p(3) by simp
  have "auth h this token =
      Inr (h @ [?AH, ?ARG, H, Q, M]
             @ [[(''API_ROOT'', JStr []), (''options'', JRef (length h + 4))]],
           JRef (length h + 5))"
    using t res u by (simp add: auth_def alloc_def Api_new_default_root)
  then show ?thesis by (intro exI [of _ "[?AH, ?ARG, H, Q, M]"]) simp
qed

lemma auth_result:
  assumes c: "closed_heap h" and cl: "is_client h this root A"
    and A: "A \<noteq> JUndefined" "A \<noteq> JNull" and t: "token \<noteq> JNull"
  shows "\<exists>H Q M. auth h this token =
      Inr (h @ [[(''Authorization'', JStr (''Token '' @ to_string token))],
                [(''headers'', JRef (length h)), (''mode'', JStr ''cors'')],
                H, Q, M,
                [(''API_ROOT'', JStr []), (''options'', JRef (length h + 4))]],
           JRef (length h + 5))
    \<and> map_of H = (config_map h A ''headers'')
          (''Authorization'' \<mapsto> JStr (''Token '' @ to_string token))
    \<and> map_of Q = config_map h A ''query''
    \<and> map_of M = (props_of h A)
          (''mode'' \<mapsto> JStr ''cors'', ''headers'' \<mapsto> JRef (length h + 2),
           ''query'' \<mapsto> JRef (length h + 3))
    \<and> distinct (map fst H) \<and> distinct (map fst Q)"
proof -
  let ?AH = "[(''Authorization'', JStr (''Token '' @ to_string token))]"
  let ?ARG = "[(''headers'', JRef (length h)), (''mode'', JStr ''cors'')]"
  let ?h2 = "h @ [?AH, ?ARG]"
  let ?B = "JRef (length h + 1)"
  note p = is_client_props [OF cl]
  have vA: "valid_ref h A"
    using closed_heap_field [OF c p(1), of "''options''"] p(2) by (simp add: field_def)
  have c1: "closed_heap (h @ [?AH])"
    by (rule closed_heap_append [OF c]) simp
  have c2: "closed_heap ?h2"
    using closed_heap_append [OF c1, of ?ARG] by simp
  have v2: "valid_ref ?h2 this" "valid_ref ?h2 ?B"
    using valid_ref_append [OF p(1), of "[?AH, ?ARG]"] by simp_all
  have g2: "get_prop ?h2 this ''options'' = Inr A"
    using get_prop_append [OF p(1), of "[?AH, ?ARG]"] p(2) by simp
  from mergeOptions_closed [OF c2 v2 g2 A] obtain H Q M where
    res: "mergeOptions ?h2 this ?B = Inr (?h2 @ [H, Q, M], JRef (length ?h2 + 2))"
    and H: "map_of H = config_map ?h2 A ''headers'' ++ config_map ?h2 ?B ''headers''"
    and Q: "map_of Q = config_map ?h2 A ''query'' ++ config_map ?h2 ?B ''query''"
    and M: "map_of M = (props_of ?h2 A ++ props_of ?h2 ?B)
         (''headers'' \<mapsto> JRef (length ?h2), ''query'' \<mapsto> JRef (length ?h2 + 1))"
    and d: "distinct (map fst H)" "distinct (map fst Q)"
    by auto
  have cmA: "config_map ?h2 A k = config_map h A k" for k
    using vA closed_heap_field [OF c vA, of k]
    by (simp add: config_map_def field_append own_props_or_empty_append)
  have dB: "deref ?h2 (length h + 1) = ?ARG" "deref ?h2 (length h) = ?AH"
    by (simp_all add: deref_def nth_append)
  have fB: "field ?h2 ?B ''headers'' = JRef (length h)" "field ?h2 ?B ''query'' = JUndefined"
    unfolding field_def get_prop.simps dB by simp_all
  have cmB: "config_map ?h2 ?B ''headers''
      = [''Authorization'' \<mapsto> JStr (''Token '' @ to_string token)]"
    "config_map ?h2 ?B ''query'' = Map.empty"
    unfolding config_map_def fB own_props_or_empty_def
    by (simp_all add: deref_def nth_append)
  have pB: "props_of ?h2 ?B = [''headers'' \<mapsto> JRef (length h), ''mode'' \<mapsto> JStr ''cors'']"
    unfolding props_of_def own_props.simps dB by (simp add: fun_eq_iff)
  have pA: "props_of ?h2 A = props_of h A"
    using vA by (simp add: props_of_def own_props_append)
  have H': "map_of H = (config_map h A ''headers'')
          (''Authorization'' \<mapsto> JStr (''Token '' @ to_string token))"
    unfolding H cmA cmB by (simp add: fun_eq_iff map_add_def)
  have Q': "map_of Q = config_map h A ''query''"
    unfolding Q cmA cmB by simp
  have M': "map_of M = (props_of h A)
          (''mode'' \<mapsto> JStr ''cors'', ''headers'' \<mapsto> JRef (length h + 2),
           ''query'' \<mapsto> JRef (length h + 3))"
    unfolding M pA pB by (auto simp: fun_eq_iff map_add_def)
  have u: "get_prop (?h2 @ [H, Q, M]) this ''apiUrl'' = Inr JUndefined"
    using get_prop_append [OF p(1), of "[?AH, ?ARG, H, Q, M]"] p(3) by simp
  have "auth h this token =
      Inr (h @ [?AH, ?ARG, H, Q, M,
                [(''API_ROOT'', JStr []), (''options'', JRef (length h + 4))]],
           JRef (length h + 5))"
    using t res u by (simp add: auth_def alloc_def Api_new_default_root)
  with H' Q' M' d show ?thesis by blast
qed

section \<open>The outcome of \<^verbatim>\<open>transform\<close> (C1)\<close>

text \<open>
  The claim promises a pending outcome for every response. A response of the Fetch
  interface has the methods \<^verbatim>\<open>json\<close> and \<^verbatim>\<open>text\<close> and no method \<^verbatim>\<open>raw\<close>; with the
  content type \<^verbatim>\<open>image/png\<close> the guard of \<^verbatim>\<open>transformer\<close> throws, and \<^verbatim>\<open>transform\<close>
  returns no promise.
\<close>

theorem transform_every_response_counterexample:
  "transform \<lparr>status = 200, statusText = ''OK'', ok = True,
      content_type = JStr ''image/png'',
      json_member = Method (Thenable (Rejected (JStr ''SyntaxError''))),
      text_member = Method (Thenable (Fulfilled (JStr ''...''))),
      raw_member = NotFunction\<rparr>
   = Inl (ApiError ''Response has no transformer with name raw'')"
  by (simp add: Let_def transform_def transformer_def transformerFromContentType_def response_member_def)

text \<open>
  C1, amended: for every response that has the decode method chosen by its content type,
  and whose decode result is a promise or an immediate value other than \<^verbatim>\<open>null\<close> and
  \<^verbatim>\<open>undefined\<close>, \<^verbatim>\<open>transform\<close> returns a promise. With the decoded body \<open>v\<close> (the
  immediate value, or the value the decode promise fulfils with) it fulfils with
  \<^verbatim>\<open>{response, data: v}\<close> when \<^verbatim>\<open>response.ok\<close> holds, and otherwise rejects with the
  error whose message is \<^verbatim>\<open>Response has no ok-status (<status> - <statusText>)\<close>, whose
  \<^verbatim>\<open>data\<close> is \<open>v\<close> and whose \<^verbatim>\<open>response\<close> is the response. When the decode promise
  rejects, the promise rejects with the same reason; when it never settles, neither does
  the promise.
\<close>

theorem transform_outcome:
  assumes "response_member r (transformerFromContentType (content_type r)) = Method d"
    and "d \<noteq> Immediate JUndefined" and "d \<noteq> Immediate JNull"
  shows "transform r = Inr
     (let outcome = (\<lambda>v.
            if ok r then Fulfilled \<lparr>response = r, data = v\<rparr>
            else Rejected (OkStatus \<lparr>response = r, data = v,
                   message = ''Response has no ok-status ('' @ show_nat (unat (status r))
                     @ '' - '' @ statusText r @ '')''\<rparr>))
      in case d of
           Immediate v \<Rightarrow> outcome v
         | Thenable (Fulfilled v) \<Rightarrow> outcome v
         | Thenable (Rejected x) \<Rightarrow> Rejected (External x)
         | Thenable Unsettled \<Rightarrow> Unsettled)"
proof (cases d)
  case (Immediate v)
  with assms(2,3) have "v \<noteq> JUndefined" "v \<noteq> JNull" by simp_all
  then show ?thesis
    by (cases v)
      (simp_all add: Let_def transform_def transformer_Method [OF assms(1)] Immediate ok_status_message_def)
next
  case (Thenable p)
  then show ?thesis
    by (cases p)
      (simp_all add: Let_def transform_def transformer_Method [OF assms(1)] ok_status_message_def)
qed

theorem transform_outcome_witness:
  "transform \<lparr>status = 404, statusText = ''Not Found'', ok = False, content_type = JNull,
      json_member = NotFunction, text_member = NotFunction,
      raw_member = Method (Immediate (JStr ''data''))\<rparr>
   = Inr (Rejected (OkStatus
      \<lparr>response = \<lparr>status = 404, statusText = ''Not Found'', ok = False, content_type = JNull,
          json_member = NotFunction, text_member = NotFunction,
          raw_member = Method (Immediate (JStr ''data''))\<rparr>,
       data = JStr ''data'',
       message = ''Response has no ok-status (404 - Not Found)''\<rparr>))
   \<and> transform \<lparr>status = 200, statusText = ''OK'', ok = True,
      content_type = JStr ''application/json'',
      json_member = Method (Thenable (Fulfilled (JNum 7))), text_member = NotFunction,
      raw_member = NotFunction\<rparr>
   = Inr (Fulfilled
      \<lparr>response = \<lparr>status = 200, statusText = ''OK'', ok = True,
          content_type = JStr ''application/json'',
          json_member = Method (Thenable (Fulfilled (JNum 7))), text_member = NotFunction,
          raw_member = NotFunction\<rparr>,
       data = JNum 7\<rparr>)"
proof -
  let ?r = "\<lparr>status = 404, statusText = ''Not Found'', ok = False, content_type = JNull,
      json_member = NotFunction, text_member = NotFunction,
      raw_member = Method (Immediate (JStr ''data''))\<rparr>"
  let ?s = "\<lparr>status = 200, statusText = ''OK'', ok = True,
      content_type = JStr ''application/json'',
      json_member = Method (Thenable (Fulfilled (JNum 7))), text_member = NotFunction,
      raw_member = NotFunction\<rparr>"
  have m: "response_member ?r (transformerFromContentType (content_type ?r))
      = Method (Immediate (JStr ''data''))"
    by (simp add: response_member_def transformerFromContentType_def)
  have n: "response_member ?s (transformerFromContentType (content_type ?s))
      = Method (Thenable (Fulfilled (JNum 7)))"
    by (simp add: response_member_def transformerFromContentType_def)
  show ?thesis
    using transform_outcome [OF m] transform_outcome [OF n]
    by (simp add: show_nat_404)
qed

section \<open>The content-type classifier (C2)\<close>

text \<open>
  The claim asks for \<^verbatim>\<open>text\<close> only when the string starts with \<^verbatim>\<open>text/\<close>. The content
  type \<^verbatim>\<open>x-text/plain\<close> neither contains \<^verbatim>\<open>json\<close> nor starts with \<^verbatim>\<open>text/\<close>, and is
  classified as \<^verbatim>\<open>text\<close>, not \<^verbatim>\<open>raw\<close>.
\<close>

theorem transformerFromContentType_starts_with_counterexample:
  "\<not> contains ''json'' ''x-text/plain'' \<and> \<not> prefix ''text/'' ''x-text/plain''
   \<and> transformerFromContentType (JStr ''x-text/plain'') = ''text''
   \<and> transformerFromContentType (JStr ''x-text/plain'') \<noteq> ''raw''"
  by (simp add: transformerFromContentType_def)

text \<open>
  C2, amended: a non-string is classified \<^verbatim>\<open>raw\<close>; a string that contains \<^verbatim>\<open>json\<close>
  anywhere is \<^verbatim>\<open>json\<close>; otherwise a string that contains \<^verbatim>\<open>text/\<close> anywhere is
  \<^verbatim>\<open>text\<close>; every other string is \<^verbatim>\<open>raw\<close>.
\<close>

theorem transformerFromContentType_rules:
  "transformerFromContentType v =
     (case v of
        JStr s \<Rightarrow>
          if (\<exists>p q. s = p @ ''json'' @ q) then ''json''
          else if (\<exists>p q. s = p @ ''text/'' @ q) then ''text''
          else ''raw''
      | _ \<Rightarrow> ''raw'')"
  unfolding transformerFromContentType_def contains_iff by (rule refl)

theorem transformerFromContentType_rules_witness:
  "transformerFromContentType (JStr ''application/json'') = ''json''
   \<and> transformerFromContentType (JStr ''text/xml'') = ''text''
   \<and> transformerFromContentType (JStr ''something-unknown'') = ''raw''
   \<and> transformerFromContentType JNull = ''raw''"
proof -
  have j: "\<exists>p q. ''application/json'' = p @ ''json'' @ q"
    using contains_iff [of "''json''" "''application/json''"] by simp
  have t: "\<not> (\<exists>p q. ''text/xml'' = p @ ''json'' @ q)" "\<exists>p q. ''text/xml'' = p @ ''text/'' @ q"
    using contains_iff [of "''json''" "''text/xml''"] contains_iff [of "''text/''" "''text/xml''"]
    by simp_all
  have u: "\<not> (\<exists>p q. ''something-unknown'' = p @ ''json'' @ q)"
    "\<not> (\<exists>p q. ''something-unknown'' = p @ ''text/'' @ q)"
    using contains_iff [of "''json''" "''something-unknown''"]
      contains_iff [of "''text/''" "''something-unknown''"]
    by simp_all
  show ?thesis
    using transformerFromContentType_rules [of "JStr ''application/json''"]
      transformerFromContentType_rules [of "JStr ''text/xml''"]
      transformerFromContentType_rules [of "JStr ''something-unknown''"]
      transformerFromContentType_rules [of JNull] j t u
    by simp
qed

section \<open>The query string (C3)\<close>

text \<open>
  C3 asks for the url unchanged when the merged query is empty. The merged options always
  hold an object under \<^verbatim>\<open>query\<close>, and an object is truthy, so the test
  \<^verbatim>\<open>if (mergedOptions.query)\<close> never fails: whenever \<^verbatim>\<open>fetch\<close> reaches the transport,
  the url it resolved is the caller's url followed by \<^verbatim>\<open>?\<close> and the encoded query. The
  request of the test \<^verbatim>\<open>should fetch from full url\<close> shows it for the empty query.
\<close>

theorem fetch_request_always_appends:
  assumes "fetch_request stringify resolve h this url options = Inr (h1, fullUrl, mergedOptions)"
  shows "\<exists>q. get_prop h1 mergedOptions ''query'' = Inr (JRef q)
    \<and> buildFullUrl resolve h1 this (url @ ''?'' @ stringify h1 (JRef q)) = Inr fullUrl"
  using fetch_request_shape [OF assms] by blast

theorem fetch_request_always_appends_witness:
  "fetch_request no_query_string concat_resolve example_heap (JRef 0) ''/sample'' JUndefined
     = Inr (example_heap @ [[], [], [], [(''headers'', JRef 3), (''query'', JRef 4)]],
            ''http://example.com/sample?'', JRef 5)
   \<and> (\<exists>q. get_prop (example_heap @ [[], [], [], [(''headers'', JRef 3), (''query'', JRef 4)]])
              (JRef 5) ''query'' = Inr (JRef q)
        \<and> buildFullUrl concat_resolve
              (example_heap @ [[], [], [], [(''headers'', JRef 3), (''query'', JRef 4)]]) (JRef 0)
              (''/sample'' @ ''?'' @ no_query_string
                 (example_heap @ [[], [], [], [(''headers'', JRef 3), (''query'', JRef 4)]]) (JRef q))
            = Inr ''http://example.com/sample?'')
   \<and> deref (example_heap @ [[], [], [], [(''headers'', JRef 3), (''query'', JRef 4)]]) 4 = []"
proof -
  have e: "fetch_request no_query_string concat_resolve example_heap (JRef 0) ''/sample'' JUndefined
     = Inr (example_heap @ [[], [], [], [(''headers'', JRef 3), (''query'', JRef 4)]],
            ''http://example.com/sample?'', JRef 5)"
    by (simp add: fetch_request_def mergeOptions_def alloc_def example_heap_def deref_def
        own_props_or_empty_def spread_def buildFullUrl_def looks_absolute_def
        concat_resolve_def no_query_string_def)
  have d: "deref (example_heap @ [[], [], [], [(''headers'', JRef 3), (''query'', JRef 4)]]) 4 = []"
    by (simp add: example_heap_def deref_def)
  from fetch_request_always_appends [OF e] e d show ?thesis by blast
qed

section \<open>Url resolution (C4)\<close>

text \<open>
  C4 asks that a url is used unchanged exactly when it starts with \<^verbatim>\<open>http://\<close> or
  \<^verbatim>\<open>www\<close>, and \<^verbatim>\<open>buildFullUrl\<close> is documented to prepend the root when the url is a
  relative path. The regular expression of the source has no anchor: for a client whose
  root is a string, \<^verbatim>\<open>buildFullUrl\<close> returns the url unchanged exactly when \<^verbatim>\<open>http://\<close>
  or \<^verbatim>\<open>www\<close> occurs anywhere in it, and otherwise returns the url resolved against the
  root. So the relative path \<^verbatim>\<open>/wwwroot/index.html\<close> is returned unchanged.
\<close>

theorem buildFullUrl_contains:
  assumes "get_prop h this ''API_ROOT'' = Inr (JStr root)"
  shows "buildFullUrl resolve h this url =
     (if (\<exists>p q. url = p @ ''http://'' @ q) \<or> (\<exists>p q. url = p @ ''www'' @ q) then Inr url
      else Inr (resolve root url))"
  using assms by (simp add: buildFullUrl_def looks_absolute_def contains_iff)

theorem buildFullUrl_contains_witness:
  "get_prop example_heap (JRef 0) ''API_ROOT'' = Inr (JStr ''http://example.com'')
   \<and> buildFullUrl concat_resolve example_heap (JRef 0) ''/path'' = Inr ''http://example.com/path''
   \<and> buildFullUrl concat_resolve example_heap (JRef 0) ''http://foo.bar/baz'' = Inr ''http://foo.bar/baz''
   \<and> buildFullUrl concat_resolve example_heap (JRef 0) ''www.example.com'' = Inr ''www.example.com''
   \<and> \<not> prefix ''http://'' ''/wwwroot/index.html'' \<and> \<not> prefix ''www'' ''/wwwroot/index.html''
   \<and> buildFullUrl concat_resolve example_heap (JRef 0) ''/wwwroot/index.html''
       = Inr ''/wwwroot/index.html''
   \<and> concat_resolve ''http://example.com'' ''/wwwroot/index.html''
       = ''http://example.com/wwwroot/index.html''"
proof -
  have g: "get_prop example_heap (JRef 0) ''API_ROOT'' = Inr (JStr ''http://example.com'')"
    by (simp add: example_heap_def deref_def)
  have a: "\<not> (\<exists>p q. ''/path'' = p @ ''http://'' @ q)" "\<not> (\<exists>p q. ''/path'' = p @ ''www'' @ q)"
    using contains_iff [of "''http://''" "''/path''"] contains_iff [of "''www''" "''/path''"]
    by simp_all
  have b: "\<exists>p q. ''http://foo.bar/baz'' = p @ ''http://'' @ q"
    using contains_iff [of "''http://''" "''http://foo.bar/baz''"] by simp
  have c: "\<exists>p q. ''www.example.com'' = p @ ''www'' @ q"
    using contains_iff [of "''www''" "''www.example.com''"] by simp
  have d: "\<exists>p q. ''/wwwroot/index.html'' = p @ ''www'' @ q"
    using contains_iff [of "''www''" "''/wwwroot/index.html''"] by simp
  show ?thesis
    using buildFullUrl_contains [OF g, of concat_resolve "''/path''"]
      buildFullUrl_contains [OF g, of concat_resolve "''http://foo.bar/baz''"]
      buildFullUrl_contains [OF g, of concat_resolve "''www.example.com''"]
      buildFullUrl_contains [OF g, of concat_resolve "''/wwwroot/index.html''"] g a b c d
    by (simp add: concat_resolve_def)
qed

section \<open>A response without the chosen method (C5)\<close>

text \<open>
  The claim asks for a failed pending value and no synchronous throw. For a response
  without content type and without a member \<^verbatim>\<open>raw\<close>, \<^verbatim>\<open>transform\<close> throws.
\<close>

theorem transform_synchronous_throw_counterexample:
  "transform \<lparr>status = 200, statusText = ''OK'', ok = True, content_type = JNull,
      json_member = Method (Thenable (Fulfilled JNull)),
      text_member = Method (Thenable (Fulfilled (JStr []))),
      raw_member = NotFunction\<rparr>
   = Inl (ApiError ''Response has no transformer with name raw'')"
  by (simp add: Let_def transform_def transformer_def transformerFromContentType_def response_member_def)

text \<open>
  C5, amended: for every response that has no function under the name the classifier
  chooses, \<^verbatim>\<open>transform\<close> throws the \<^verbatim>\<open>ApiError\<close> that names the chosen method, whatever
  the other members are; when \<^verbatim>\<open>transform\<close> runs as the continuation of the transport's
  promise in \<^verbatim>\<open>fetch\<close>, the promise \<^verbatim>\<open>fetch\<close> returns rejects with that error.
\<close>

theorem transform_missing_method:
  assumes "response_member r (transformerFromContentType (content_type r)) = NotFunction"
  shows "transform r = Inl (ApiError (''Response has no transformer with name ''
            @ transformerFromContentType (content_type r)))
    \<and> (fetch_request stringify resolve h this url options = Inr (h1, fullUrl, mergedOptions)
        \<and> transport h1 fullUrl mergedOptions = Fulfilled r
        \<longrightarrow> fetch transport stringify resolve h this url options
            = Inr (Rejected (Raised (ApiError (''Response has no transformer with name ''
                @ transformerFromContentType (content_type r))))))"
  by (simp add: Let_def transform_def fetch_def transformer_NotFunction [OF assms])

theorem transform_missing_method_witness:
  "transform \<lparr>status = 200, statusText = ''OK'', ok = True,
      content_type = JStr ''image/png'',
      json_member = Method (Thenable (Rejected (JStr ''SyntaxError''))),
      text_member = Method (Thenable (Fulfilled (JStr ''...''))),
      raw_member = NotFunction\<rparr>
     = Inl (ApiError ''Response has no transformer with name raw'')
   \<and> fetch (\<lambda>h url options. Fulfilled
        \<lparr>status = 200, statusText = ''OK'', ok = True,
          content_type = JStr ''image/png'',
          json_member = Method (Thenable (Rejected (JStr ''SyntaxError''))),
          text_member = Method (Thenable (Fulfilled (JStr ''...''))),
          raw_member = NotFunction\<rparr>)
        no_query_string concat_resolve example_heap (JRef 0) ''/sample'' JUndefined
     = Inr (Rejected (Raised (ApiError ''Response has no transformer with name raw'')))"
proof -
  let ?r = "\<lparr>status = 200, statusText = ''OK'', ok = True,
      content_type = JStr ''image/png'',
      json_member = Method (Thenable (Rejected (JStr ''SyntaxError''))),
      text_member = Method (Thenable (Fulfilled (JStr ''...''))),
      raw_member = NotFunction\<rparr>"
  have n: "transformerFromContentType (content_type ?r) = ''raw''"
    by (simp add: transformerFromContentType_def)
  have m: "response_member ?r (transformerFromContentType (content_type ?r)) = NotFunction"
    unfolding n by (simp add: response_member_def)
  from transform_missing_method [OF m, of no_query_string concat_resolve example_heap "JRef 0"
      "''/sample''" JUndefined _ _ _ "\<lambda>h url options. Fulfilled ?r"]
    fetch_request_example
  show ?thesis unfolding n by simp
qed

section \<open>Merging options (C6)\<close>

text \<open>
  C6: for a client with default configuration \<open>A\<close> and an override \<open>B\<close>, the merged
  configuration holds an object under \<^verbatim>\<open>headers\<close> and one under \<^verbatim>\<open>query\<close>; each is the
  union of the mappings of \<open>A\<close> and \<open>B\<close> under that key, \<open>B\<close> winning on a common key, and
  is empty when neither side has the key; the other keys are those of \<open>A\<close> and \<open>B\<close>, \<open>B\<close>
  winning; every object that was in the store before the call is unchanged.
\<close>

theorem mergeOptions_union:
  assumes "closed_heap h" and "valid_ref h this" and "valid_ref h B"
    and "get_prop h this ''options'' = Inr A"
    and "A \<noteq> JUndefined" and "A \<noteq> JNull" and "B \<noteq> JUndefined" and "B \<noteq> JNull"
  shows "\<exists>h' m hd qu. mergeOptions h this B = Inr (h', m)
      \<and> get_prop h' m ''headers'' = Inr (JRef hd)
      \<and> get_prop h' m ''query'' = Inr (JRef qu)
      \<and> props_of h' (JRef hd) = config_map h A ''headers'' ++ config_map h B ''headers''
      \<and> props_of h' (JRef qu) = config_map h A ''query'' ++ config_map h B ''query''
      \<and> (field h A ''headers'' = JUndefined \<and> field h B ''headers'' = JUndefined
            \<longrightarrow> deref h' hd = [])
      \<and> (field h A ''query'' = JUndefined \<and> field h B ''query'' = JUndefined
            \<longrightarrow> deref h' qu = [])
      \<and> props_of h' m = (props_of h A ++ props_of h B)
            (''headers'' \<mapsto> JRef hd, ''query'' \<mapsto> JRef qu)
      \<and> take (length h) h' = h"
proof -
  from mergeOptions_closed [OF assms] obtain H Q M where
    res: "mergeOptions h this B = Inr (h @ [H, Q, M], JRef (length h + 2))"
    and H: "map_of H = config_map h A ''headers'' ++ config_map h B ''headers''"
    and Q: "map_of Q = config_map h A ''query'' ++ config_map h B ''query''"
    and M: "map_of M = (props_of h A ++ props_of h B)
         (''headers'' \<mapsto> JRef (length h), ''query'' \<mapsto> JRef (length h + 1))"
    by blast
  let ?h' = "h @ [H, Q, M]"
  have d: "deref ?h' (length h + 2) = M" "deref ?h' (length h) = H"
    "deref ?h' (length h + 1) = Q"
    by (simp_all add: deref_def nth_append)
  have g: "get_prop ?h' (JRef (length h + 2)) ''headers'' = Inr (JRef (length h))"
    "get_prop ?h' (JRef (length h + 2)) ''query'' = Inr (JRef (length h + 1))"
    unfolding get_prop.simps d M by simp_all
  have p1: "props_of ?h' (JRef (length h))
      = config_map h A ''headers'' ++ config_map h B ''headers''"
    unfolding props_of_def own_props.simps d map_of_clearjunk H by (rule refl)
  have p2: "props_of ?h' (JRef (length h + 1))
      = config_map h A ''query'' ++ config_map h B ''query''"
    unfolding props_of_def own_props.simps d map_of_clearjunk Q by (rule refl)
  have p3: "props_of ?h' (JRef (length h + 2)) = (props_of h A ++ props_of h B)
         (''headers'' \<mapsto> JRef (length h), ''query'' \<mapsto> JRef (length h + 1))"
  proof -
    have "props_of ?h' (JRef (length h + 2)) = map_of M"
      unfolding props_of_def own_props.simps d map_of_clearjunk by (rule refl)
    with M show ?thesis by simp
  qed
  have e1: "field h A ''headers'' = JUndefined \<and> field h B ''headers'' = JUndefined
      \<longrightarrow> deref ?h' (length h) = []"
    using H unfolding d by (auto simp: config_map_def own_props_or_empty_def)
  have e2: "field h A ''query'' = JUndefined \<and> field h B ''query'' = JUndefined
      \<longrightarrow> deref ?h' (length h + 1) = []"
    using Q unfolding d by (auto simp: config_map_def own_props_or_empty_def)
  have fr: "take (length h) ?h' = h" by simp
  from res g p1 p2 p3 e1 e2 fr show ?thesis by blast
qed

theorem mergeOptions_union_witness:
  "\<exists>h' m hd qu. mergeOptions merge_headers_heap (JRef 0) (JRef 3) = Inr (h', m)
      \<and> get_prop h' m ''headers'' = Inr (JRef hd)
      \<and> get_prop h' m ''query'' = Inr (JRef qu)
      \<and> props_of h' (JRef hd) =
          [''Content-Type'' \<mapsto> JStr ''json'', ''Foo'' \<mapsto> JStr ''Bar'']
          ++ [''Content-Type'' \<mapsto> JStr ''text'', ''Token'' \<mapsto> JStr ''123'']
      \<and> props_of h' (JRef qu) = Map.empty
      \<and> deref h' qu = []
      \<and> take 5 h' = merge_headers_heap"
proof -
  have c: "closed_heap merge_headers_heap"
    by (simp add: closed_heap_def merge_headers_heap_def)
  have v: "valid_ref merge_headers_heap (JRef 0)" "valid_ref merge_headers_heap (JRef 3)"
    by (simp_all add: merge_headers_heap_def)
  have g: "get_prop merge_headers_heap (JRef 0) ''options'' = Inr (JRef 1)"
    by (simp add: merge_headers_heap_def deref_def)
  have f: "field merge_headers_heap (JRef 1) ''query'' = JUndefined"
    "field merge_headers_heap (JRef 3) ''query'' = JUndefined"
    by (simp_all add: merge_headers_heap_def deref_def field_def)
  have m: "config_map merge_headers_heap (JRef 1) ''headers''
      = [''Content-Type'' \<mapsto> JStr ''json'', ''Foo'' \<mapsto> JStr ''Bar'']"
    "config_map merge_headers_heap (JRef 3) ''headers''
      = [''Content-Type'' \<mapsto> JStr ''text'', ''Token'' \<mapsto> JStr ''123'']"
    "config_map merge_headers_heap (JRef 1) ''query'' = Map.empty"
    "config_map merge_headers_heap (JRef 3) ''query'' = Map.empty"
    by (simp_all add: config_map_def field_def merge_headers_heap_def deref_def
        own_props_or_empty_def fun_eq_iff)
  have l: "length merge_headers_heap = 5" by (simp add: merge_headers_heap_def)
  have "\<exists>h' m hd qu. mergeOptions merge_headers_heap (JRef 0) (JRef 3) = Inr (h', m)
      \<and> get_prop h' m ''headers'' = Inr (JRef hd)
      \<and> get_prop h' m ''query'' = Inr (JRef qu)
      \<and> props_of h' (JRef hd) = config_map merge_headers_heap (JRef 1) ''headers''
            ++ config_map merge_headers_heap (JRef 3) ''headers''
      \<and> props_of h' (JRef qu) = config_map merge_headers_heap (JRef 1) ''query''
            ++ config_map merge_headers_heap (JRef 3) ''query''
      \<and> (field merge_headers_heap (JRef 1) ''headers'' = JUndefined
            \<and> field merge_headers_heap (JRef 3) ''headers'' = JUndefined \<longrightarrow> deref h' hd = [])
      \<and> (field merge_headers_heap (JRef 1) ''query'' = JUndefined
            \<and> field merge_headers_heap (JRef 3) ''query'' = JUndefined \<longrightarrow> deref h' qu = [])
      \<and> props_of h' m = (props_of merge_headers_heap (JRef 1)
              ++ props_of merge_headers_heap (JRef 3))
            (''headers'' \<mapsto> JRef hd, ''query'' \<mapsto> JRef qu)
      \<and> take (length merge_headers_heap) h' = merge_headers_heap"
    by (rule mergeOptions_union [OF c v g]) simp_all
  then obtain h' mm hd qu where
    "mergeOptions merge_headers_heap (JRef 0) (JRef 3) = Inr (h', mm)"
    "get_prop h' mm ''headers'' = Inr (JRef hd)"
    "get_prop h' mm ''query'' = Inr (JRef qu)"
    "props_of h' (JRef hd) =
       [''Content-Type'' \<mapsto> JStr ''json'', ''Foo'' \<mapsto> JStr ''Bar'']
       ++ [''Content-Type'' \<mapsto> JStr ''text'', ''Token'' \<mapsto> JStr ''123'']"
    "props_of h' (JRef qu) = Map.empty ++ Map.empty"
    "deref h' qu = []"
    "take 5 h' = merge_headers_heap"
    unfolding f m l by blast
  then show ?thesis
    unfolding map_add_empty by blast
qed

section \<open>Deriving an authorised client (C7)\<close>

text \<open>
  C7: \<^verbatim>\<open>auth(null)\<close> throws the \<^verbatim>\<open>ApiError\<close> for a null token. For a client with default
  configuration \<open>A\<close> and any other token, \<^verbatim>\<open>auth(token)\<close> returns a newly allocated
  client; its configuration has the headers of \<open>A\<close> with \<^verbatim>\<open>Authorization\<close> set to
  \<^verbatim>\<open>Token <token>\<close>, the query of \<open>A\<close>, \<^verbatim>\<open>mode\<close> set to \<^verbatim>\<open>cors\<close> and the other keys of
  \<open>A\<close>; every object that was in the store before the call is unchanged, so the original
  client keeps its root and its configuration.
\<close>

theorem auth_derives_client:
  assumes "closed_heap h" and "is_client h this root A"
    and "A \<noteq> JUndefined" and "A \<noteq> JNull" and "token \<noteq> JNull"
  shows "auth h this JNull
      = Inl (ApiError ''AuthToken is null. Authorized API calls cannot be send.'')
    \<and> (\<exists>h' derived opts hd qu.
        auth h this token = Inr (h', derived)
      \<and> \<not> valid_ref h derived \<and> valid_ref h' derived
      \<and> get_prop h' derived ''options'' = Inr opts
      \<and> get_prop h' opts ''headers'' = Inr (JRef hd)
      \<and> get_prop h' opts ''query'' = Inr (JRef qu)
      \<and> get_prop h' opts ''mode'' = Inr (JStr ''cors'')
      \<and> props_of h' (JRef hd) ''Authorization'' = Some (JStr (''Token '' @ to_string token))
      \<and> props_of h' (JRef hd) = (config_map h A ''headers'')
            (''Authorization'' \<mapsto> JStr (''Token '' @ to_string token))
      \<and> props_of h' (JRef qu) = config_map h A ''query''
      \<and> props_of h' opts = (props_of h A)
            (''mode'' \<mapsto> JStr ''cors'', ''headers'' \<mapsto> JRef hd, ''query'' \<mapsto> JRef qu)
      \<and> take (length h) h' = h
      \<and> is_client h' this root A)"
proof
  show "auth h this JNull
      = Inl (ApiError ''AuthToken is null. Authorized API calls cannot be send.'')"
    by (simp add: auth_def)
next
  let ?AH = "[(''Authorization'', JStr (''Token '' @ to_string token))]"
  let ?ARG = "[(''headers'', JRef (length h)), (''mode'', JStr ''cors'')]"
  let ?C = "[(''API_ROOT'', JStr []), (''options'', JRef (length h + 4))]"
  from auth_result [OF assms] obtain H Q M where
    au: "auth h this token = Inr (h @ [?AH, ?ARG, H, Q, M, ?C], JRef (length h + 5))"
    and H: "map_of H = (config_map h A ''headers'')
          (''Authorization'' \<mapsto> JStr (''Token '' @ to_string token))"
    and Q: "map_of Q = config_map h A ''query''"
    and M: "map_of M = (props_of h A)
          (''mode'' \<mapsto> JStr ''cors'', ''headers'' \<mapsto> JRef (length h + 2),
           ''query'' \<mapsto> JRef (length h + 3))"
    by blast
  let ?h' = "h @ [?AH, ?ARG, H, Q, M, ?C]"
  have d: "deref ?h' (length h + 5) = ?C" "deref ?h' (length h + 4) = M"
    "deref ?h' (length h + 3) = Q" "deref ?h' (length h + 2) = H"
    by (simp_all add: deref_def nth_append)
  have v: "\<not> valid_ref h (JRef (length h + 5))" "valid_ref ?h' (JRef (length h + 5))"
    by simp_all
  have o: "get_prop ?h' (JRef (length h + 5)) ''options'' = Inr (JRef (length h + 4))"
    unfolding get_prop.simps d by simp
  have g: "get_prop ?h' (JRef (length h + 4)) ''headers'' = Inr (JRef (length h + 2))"
    "get_prop ?h' (JRef (length h + 4)) ''query'' = Inr (JRef (length h + 3))"
    "get_prop ?h' (JRef (length h + 4)) ''mode'' = Inr (JStr ''cors'')"
    unfolding get_prop.simps d M by simp_all
  have pH: "props_of ?h' (JRef (length h + 2)) = (config_map h A ''headers'')
            (''Authorization'' \<mapsto> JStr (''Token '' @ to_string token))"
    unfolding props_of_def own_props.simps d map_of_clearjunk H by (rule refl)
  have pA: "props_of ?h' (JRef (length h + 2)) ''Authorization''
      = Some (JStr (''Token '' @ to_string token))"
    unfolding pH by simp
  have pQ: "props_of ?h' (JRef (length h + 3)) = config_map h A ''query''"
    unfolding props_of_def own_props.simps d map_of_clearjunk Q by (rule refl)
  have pM: "props_of ?h' (JRef (length h + 4)) = (props_of h A)
          (''mode'' \<mapsto> JStr ''cors'', ''headers'' \<mapsto> JRef (length h + 2),
           ''query'' \<mapsto> JRef (length h + 3))"
  proof -
    have "props_of ?h' (JRef (length h + 4)) = map_of M"
      unfolding props_of_def own_props.simps d map_of_clearjunk by (rule refl)
    with M show ?thesis by simp
  qed
  have fr: "take (length h) ?h' = h" by simp
  have cl: "is_client ?h' this root A"
    by (rule is_client_append [OF assms(2)])
  from au v o g pA pH pQ pM fr cl
  show "\<exists>h' derived opts hd qu.
        auth h this token = Inr (h', derived)
      \<and> \<not> valid_ref h derived \<and> valid_ref h' derived
      \<and> get_prop h' derived ''options'' = Inr opts
      \<and> get_prop h' opts ''headers'' = Inr (JRef hd)
      \<and> get_prop h' opts ''query'' = Inr (JRef qu)
      \<and> get_prop h' opts ''mode'' = Inr (JStr ''cors'')
      \<and> props_of h' (JRef hd) ''Authorization'' = Some (JStr (''Token '' @ to_string token))
      \<and> props_of h' (JRef hd) = (config_map h A ''headers'')
            (''Authorization'' \<mapsto> JStr (''Token '' @ to_string token))
      \<and> props_of h' (JRef qu) = config_map h A ''query''
      \<and> props_of h' opts = (props_of h A)
            (''mode'' \<mapsto> JStr ''cors'', ''headers'' \<mapsto> JRef hd, ''query'' \<mapsto> JRef qu)
      \<and> take (length h) h' = h
      \<and> is_client h' this root A"
    by blast
qed

theorem auth_derives_client_witness:
  "auth merge_headers_heap (JRef 0) JNull
      = Inl (ApiError ''AuthToken is null. Authorized API calls cannot be send.'')
   \<and> (\<exists>h' derived opts hd qu.
        auth merge_headers_heap (JRef 0) (JStr ''abc'') = Inr (h', derived)
      \<and> get_prop h' derived ''options'' = Inr opts
      \<and> get_prop h' opts ''headers'' = Inr (JRef hd)
      \<and> get_prop h' opts ''mode'' = Inr (JStr ''cors'')
      \<and> props_of h' (JRef hd) ''Authorization'' = Some (JStr ''Token abc'')
      \<and> take 5 h' = merge_headers_heap
      \<and> is_client h' (JRef 0) ''http://example.com'' (JRef 1))"
proof -
  have c: "closed_heap merge_headers_heap"
    by (simp add: closed_heap_def merge_headers_heap_def)
  have i: "is_client merge_headers_heap (JRef 0) ''http://example.com'' (JRef 1)"
    by (simp add: merge_headers_heap_def)
  have n: "JRef 1 \<noteq> JUndefined" "JRef 1 \<noteq> JNull" "JStr ''abc'' \<noteq> JNull" by simp_all
  have l: "length merge_headers_heap = 5" by (simp add: merge_headers_heap_def)
  have t: "''Token '' @ to_string (JStr ''abc'') = ''Token abc''" by simp
  from auth_derives_client [OF c i n] show ?thesis
    unfolding l t by blast
qed

section \<open>The root of the derived client (C8)\<close>

text \<open>
  C8: for a client constructed with any root and any options but \<^verbatim>\<open>null\<close>, and any token
  but \<^verbatim>\<open>null\<close>, the client that \<^verbatim>\<open>auth(token)\<close> returns has the empty string as its
  \<^verbatim>\<open>API_ROOT\<close>: the constructor stores the root under \<^verbatim>\<open>API_ROOT\<close> and \<^verbatim>\<open>auth\<close> reads
  \<^verbatim>\<open>this.apiUrl\<close>, which is \<^verbatim>\<open>undefined\<close>. A url that is not absolute is then resolved
  against the empty string by the derived client, and against the root by the original;
  so is the url of every request the derived client hands to the transport.
\<close>

theorem auth_drops_root:
  assumes "options \<noteq> JNull" and "token \<noteq> JNull"
  shows "\<exists>h1 this h2 derived.
      Api_new h (JStr root) options = Inr (h1, this)
    \<and> get_prop h1 this ''API_ROOT'' = Inr (JStr root)
    \<and> auth h1 this token = Inr (h2, derived)
    \<and> get_prop h2 derived ''API_ROOT'' = Inr (JStr [])
    \<and> buildFullUrl resolve h2 derived url =
         (if looks_absolute url then Inr url else Inr (resolve [] url))
    \<and> buildFullUrl resolve h2 this url =
         (if looks_absolute url then Inr url else Inr (resolve root url))
    \<and> (\<forall>opts h3 fullUrl mergedOptions.
          fetch_request stringify resolve h2 derived url opts = Inr (h3, fullUrl, mergedOptions)
          \<longrightarrow> (\<exists>q. fullUrl =
                (if looks_absolute (url @ ''?'' @ stringify h3 (JRef q))
                 then url @ ''?'' @ stringify h3 (JRef q)
                 else resolve [] (url @ ''?'' @ stringify h3 (JRef q)))))"
proof -
  obtain h1 a A where
    new: "Api_new h (JStr root) options = Inr (h1, JRef a)"
    and cl: "is_client h1 (JRef a) root A" and A: "A \<noteq> JUndefined" "A \<noteq> JNull"
  proof (cases "options = JUndefined")
    case True
    show ?thesis
      by (rule that [of "h @ [[], [(''API_ROOT'', JStr root), (''options'', JRef (length h))]]"
            "length h + 1" "JRef (length h)"])
        (simp_all add: Api_new_result True nth_append)
  next
    case False
    show ?thesis
      by (rule that [of "h @ [[(''API_ROOT'', JStr root), (''options'', options)]]"
            "length h" options])
        (simp_all add: Api_new_result False assms(1))
  qed
  note p = is_client_props [OF cl]
  from auth_shape [OF cl A assms(2)] obtain X where
    au: "auth h1 (JRef a) token =
      Inr (h1 @ X @ [[(''API_ROOT'', JStr []), (''options'', JRef (length h1 + 4))]],
           JRef (length h1 + 5))" and X: "length X = 5"
    by blast
  let ?h2 = "h1 @ X @ [[(''API_ROOT'', JStr []), (''options'', JRef (length h1 + 4))]]"
  let ?d = "JRef (length h1 + 5)"
  have r2: "get_prop ?h2 ?d ''API_ROOT'' = Inr (JStr [])"
    using X by (simp add: deref_def nth_append)
  have r1: "get_prop ?h2 (JRef a) ''API_ROOT'' = Inr (JStr root)"
    using get_prop_append [OF p(1)] p(4) by simp
  have vd: "valid_ref ?h2 ?d" using X by simp
  have f: "\<exists>q. fullUrl =
                (if looks_absolute (url @ ''?'' @ stringify h3 (JRef q))
                 then url @ ''?'' @ stringify h3 (JRef q)
                 else resolve [] (url @ ''?'' @ stringify h3 (JRef q)))"
    if "fetch_request stringify resolve ?h2 ?d url opts = Inr (h3, fullUrl, mergedOptions)"
    for opts h3 fullUrl mergedOptions
  proof -
    from fetch_request_shape [OF that] obtain Y q where
      Y: "h3 = ?h2 @ Y"
      and b: "buildFullUrl resolve h3 ?d (url @ ''?'' @ stringify h3 (JRef q)) = Inr fullUrl"
      by blast
    have "get_prop h3 ?d ''API_ROOT'' = Inr (JStr [])"
      unfolding Y using get_prop_append [OF vd, of Y "''API_ROOT''"] r2 by simp
    from buildFullUrl_root [OF this, of resolve "url @ ''?'' @ stringify h3 (JRef q)"] b
    have "fullUrl =
                (if looks_absolute (url @ ''?'' @ stringify h3 (JRef q))
                 then url @ ''?'' @ stringify h3 (JRef q)
                 else resolve [] (url @ ''?'' @ stringify h3 (JRef q)))"
      by (simp split: if_splits)
    then show ?thesis by blast
  qed
  from new p(4) au r2 buildFullUrl_root [OF r2] buildFullUrl_root [OF r1] f
  show ?thesis by blast
qed

theorem auth_drops_root_witness:
  "\<exists>h1 this h2 derived.
      Api_new [] (JStr ''http://example.com'') JUndefined = Inr (h1, this)
    \<and> get_prop h1 this ''API_ROOT'' = Inr (JStr ''http://example.com'')
    \<and> auth h1 this (JStr ''abc'') = Inr (h2, derived)
    \<and> get_prop h2 derived ''API_ROOT'' = Inr (JStr [])
    \<and> buildFullUrl concat_resolve h2 derived ''/sample'' = Inr ''/sample''
    \<and> buildFullUrl concat_resolve h2 this ''/sample'' = Inr ''http://example.com/sample''"
proof -
  have l: "\<not> looks_absolute ''/sample''" by (simp add: looks_absolute_def)
  have n: "JUndefined \<noteq> JNull" "JStr ''abc'' \<noteq> JNull" by simp_all
  from auth_drops_root [OF n, of "[]" "''http://example.com''" concat_resolve "''/sample''"
      no_query_string]
  obtain h1 this h2 derived where
    "Api_new [] (JStr ''http://example.com'') JUndefined = Inr (h1, this)"
    "get_prop h1 this ''API_ROOT'' = Inr (JStr ''http://example.com'')"
    "auth h1 this (JStr ''abc'') = Inr (h2, derived)"
    "get_prop h2 derived ''API_ROOT'' = Inr (JStr [])"
    "buildFullUrl concat_resolve h2 derived ''/sample'' =
         (if looks_absolute ''/sample'' then Inr ''/sample''
          else Inr (concat_resolve [] ''/sample''))"
    "buildFullUrl concat_resolve h2 this ''/sample'' =
         (if looks_absolute ''/sample'' then Inr ''/sample''
          else Inr (concat_resolve ''http://example.com'' ''/sample''))"
    by blast
  then show ?thesis
    unfolding if_not_P [OF l] concat_resolve_def
    by (intro exI [of _ h1] exI [of _ this] exI [of _ h2] exI [of _ derived]) simp
qed

section \<open>JSON payloads (C9)\<close>

text \<open>
  C9: \<^verbatim>\<open>fetchWithJSON\<close> throws the \<^verbatim>\<open>ApiError\<close> with the message
  \<^verbatim>\<open>No JSON object given\<close>, which matches \<^verbatim>\<open>/No JSON object/\<close>, exactly when \<^verbatim>\<open>json\<close> is
  \<^verbatim>\<open>undefined\<close>. The encoding of \<^verbatim>\<open>null\<close> is the string \<^verbatim>\<open>null\<close>. For every other
  \<^verbatim>\<open>json\<close> whose encoding succeeds, the call is \<^verbatim>\<open>fetch\<close> on options whose \<^verbatim>\<open>body\<close> is
  \<^verbatim>\<open>JSON.stringify(json)\<close>, and the options handed to the transport carry the same body.
\<close>

theorem fetchWithJSON_payload:
  "(fetchWithJSON transport stringify resolve encode_object h this url json options
       = Inl (ApiError ''No JSON object given'') \<longleftrightarrow> json = JUndefined)
   \<and> contains ''No JSON object'' ''No JSON object given''
   \<and> JSON_stringify encode_object h JNull = Inr (JStr ''null'')
   \<and> (json \<noteq> JUndefined \<longrightarrow>
        (case JSON_stringify encode_object h json of
           Inl e \<Rightarrow>
             fetchWithJSON transport stringify resolve encode_object h this url json options = Inl e
         | Inr body \<Rightarrow>
             (\<exists>h2 options'. json_options h options body = (h2, options')
                \<and> get_prop h2 options' ''body'' = Inr body
                \<and> fetchWithJSON transport stringify resolve encode_object h this url json options
                    = fetch transport stringify resolve h2 this url options'
                \<and> (\<forall>h3 fullUrl mergedOptions.
                      fetch_request stringify resolve h2 this url options'
                        = Inr (h3, fullUrl, mergedOptions)
                      \<longrightarrow> get_prop h3 mergedOptions ''body'' = Inr body))))"
proof (intro conjI impI)
  show "fetchWithJSON transport stringify resolve encode_object h this url json options
       = Inl (ApiError ''No JSON object given'') \<longleftrightarrow> json = JUndefined"
    by (auto simp: fetchWithJSON_def split: sum.splits prod.splits
        dest: JSON_stringify_error fetch_error)
  show "contains ''No JSON object'' ''No JSON object given''" by simp
  show "JSON_stringify encode_object h JNull = Inr (JStr ''null'')"
    by (simp add: JSON_stringify_def)
  assume j: "json \<noteq> JUndefined"
  show "case JSON_stringify encode_object h json of
           Inl e \<Rightarrow>
             fetchWithJSON transport stringify resolve encode_object h this url json options = Inl e
         | Inr body \<Rightarrow>
             (\<exists>h2 options'. json_options h options body = (h2, options')
                \<and> get_prop h2 options' ''body'' = Inr body
                \<and> fetchWithJSON transport stringify resolve encode_object h this url json options
                    = fetch transport stringify resolve h2 this url options'
                \<and> (\<forall>h3 fullUrl mergedOptions.
                      fetch_request stringify resolve h2 this url options'
                        = Inr (h3, fullUrl, mergedOptions)
                      \<longrightarrow> get_prop h3 mergedOptions ''body'' = Inr body))"
  proof (cases "JSON_stringify encode_object h json")
    case (Inl e)
    with j show ?thesis by (simp add: fetchWithJSON_def)
  next
    case (Inr body)
    from json_options_body [of h options body] obtain hd X where
      jo: "json_options h options body
        = (h @ [hd, AList.update ''body'' body X], JRef (length h + 1))"
      by blast
    let ?h2 = "h @ [hd, AList.update ''body'' body X]"
    have b: "get_prop ?h2 (JRef (length h + 1)) ''body'' = Inr body"
      by (simp add: deref_def nth_append update_conv')
    have f: "fetchWithJSON transport stringify resolve encode_object h this url json options
        = fetch transport stringify resolve ?h2 this url (JRef (length h + 1))"
      using j Inr jo by (simp add: fetchWithJSON_def)
    have r: "get_prop h3 mergedOptions ''body'' = Inr body"
      if "fetch_request stringify resolve ?h2 this url (JRef (length h + 1))
            = Inr (h3, fullUrl, mergedOptions)" for h3 fullUrl mergedOptions
    proof -
      from that obtain h1' m where
        mo: "mergeOptions ?h2 this (JRef (length h + 1)) = Inr (h1', m)"
        by (auto simp: fetch_request_def split: sum.splits)
      with that have eq: "h1' = h3" "m = mergedOptions"
        by (auto simp: fetch_request_def split: sum.splits)
      have "get_prop h1' m ''body'' = Inr body"
        by (rule mergeOptions_override [OF mo]) (simp_all add: nth_append update_conv')
      with eq show ?thesis by simp
    qed
    from jo b f r Inr show ?thesis by auto
  qed
qed

theorem fetchWithJSON_payload_witness:
  "fetchWithJSON (\<lambda>h url options. Unsettled) no_query_string concat_resolve (\<lambda>h a. None)
      example_heap (JRef 0) ''/'' JUndefined JUndefined
     = Inl (ApiError ''No JSON object given'')
   \<and> fetchWithJSON (\<lambda>h url options. Unsettled) no_query_string concat_resolve (\<lambda>h a. None)
      example_heap (JRef 0) ''/'' JNull JUndefined
     \<noteq> Inl (ApiError ''No JSON object given'')
   \<and> (\<exists>h2 options'. json_options example_heap JUndefined (JStr ''null'') = (h2, options')
        \<and> get_prop h2 options' ''body'' = Inr (JStr ''null'')
        \<and> fetchWithJSON (\<lambda>h url options. Unsettled) no_query_string concat_resolve
             (\<lambda>h a. None) example_heap (JRef 0) ''/'' JNull JUndefined
            = fetch (\<lambda>h url options. Unsettled) no_query_string concat_resolve h2 (JRef 0) ''/''
                options')"
proof -
  have s: "JSON_stringify (\<lambda>h a. None) example_heap JNull = Inr (JStr ''null'')"
    by (simp add: JSON_stringify_def)
  from fetchWithJSON_payload [of "\<lambda>h url options. Unsettled" no_query_string concat_resolve
      "\<lambda>h a. None" example_heap "JRef 0" "''/''" JUndefined JUndefined]
    fetchWithJSON_payload [of "\<lambda>h url options. Unsettled" no_query_string concat_resolve
      "\<lambda>h a. None" example_heap "JRef 0" "''/''" JNull JUndefined]
  show ?thesis unfolding s by auto
qed

section \<open>Decoded values without properties (C10)\<close>

text \<open>
  C10: when the chosen decode method returns \<^verbatim>\<open>null\<close> or \<^verbatim>\<open>undefined\<close> as an immediate
  value, \<^verbatim>\<open>transform\<close> throws a \<^verbatim>\<open>TypeError\<close> and returns no promise; for every other
  decode result it returns a promise.
\<close>

theorem transform_nullish:
  assumes "response_member r (transformerFromContentType (content_type r)) = Method d"
  shows "if d = Immediate JNull \<or> d = Immediate JUndefined
         then transform r = Inl TypeError
         else (\<exists>p. transform r = Inr p)"
proof (cases d)
  case (Immediate v)
  then show ?thesis
    by (cases v) (simp_all add: Let_def transform_def transformer_Method [OF assms])
next
  case (Thenable p)
  then show ?thesis
    by (cases p) (simp_all add: Let_def transform_def transformer_Method [OF assms])
qed

theorem transform_nullish_witness:
  "transform \<lparr>status = 200, statusText = ''OK'', ok = True, content_type = JNull,
      json_member = NotFunction, text_member = NotFunction,
      raw_member = Method (Immediate JNull)\<rparr> = Inl TypeError
   \<and> transform \<lparr>status = 404, statusText = ''Not Found'', ok = False, content_type = JNull,
      json_member = NotFunction, text_member = NotFunction,
      raw_member = Method (Immediate JUndefined)\<rparr> = Inl TypeError
   \<and> (\<exists>p. transform \<lparr>status = 200, statusText = ''OK'', ok = True, content_type = JNull,
      json_member = NotFunction, text_member = NotFunction,
      raw_member = Method (Immediate (JStr ''data''))\<rparr> = Inr p)"
proof -
  let ?r = "\<lambda>s t b d. \<lparr>status = s, statusText = t, ok = b, content_type = JNull,
      json_member = NotFunction, text_member = NotFunction, raw_member = Method d\<rparr>"
  have m: "response_member (?r s t b d) (transformerFromContentType (content_type (?r s t b d)))
      = Method d" for s t b d
    by (simp add: response_member_def transformerFromContentType_def)
  show ?thesis
    using transform_nullish [OF m, of "Immediate JNull" 200 "''OK''" True]
      transform_nullish [OF m, of "Immediate JUndefined" 404 "''Not Found''" False]
      transform_nullish [OF m, of "Immediate (JStr ''data'')" 200 "''OK''" True]
    by simp
qed

end
